theory Spec2Isabelle
  imports Main "HOL-Library.AList" "HOL-Library.Word"
begin

section \<open>Machine integers and errors\<close>

text \<open>
  Go's \<^verbatim>\<open>int64\<close> is modelled as \<open>int\<close>; where the source adds or multiplies
  cursor positions the two's complement wrap-around is written out with \<open>i64\<close>.
  Go's \<^verbatim>\<open>/\<close> and \<^verbatim>\<open>%\<close> truncate towards zero (\<open>quot\<close>, \<open>rem\<close>).
  The constants \<^verbatim>\<open>pageSize\<close> and \<^verbatim>\<open>numPageEntries\<close> are declared outside the
  files at hand; every function takes them as parameters (\<open>ps\<close>, \<open>npe\<close>).
\<close>

definition i64 :: "int \<Rightarrow> int" where
  "i64 x = (x + 2 ^ 63) mod 2 ^ 64 - 2 ^ 63"

definition quot :: "int \<Rightarrow> int \<Rightarrow> int" where
  "quot a b = sgn a * sgn b * (\<bar>a\<bar> div \<bar>b\<bar>)"

definition rem :: "int \<Rightarrow> int \<Rightarrow> int" where
  "rem a b = sgn a * (\<bar>a\<bar> mod \<bar>b\<bar>)"

datatype error =
    EOF                   \<comment> \<open>\<^verbatim>\<open>io.EOF\<close>\<close>
  | ErrNegativePosition   \<comment> \<open>"Cannot set cursor to negative position"\<close>
  | ErrNoFreePages        \<comment> \<open>"ran out of free pages"\<close>
  | ErrUnmarshal          \<comment> \<open>"Failed to unmarshal ..."\<close>
  | ErrShortRead          \<comment> \<open>the short-read indication of a page read\<close>
  | PanicNilDeref         \<comment> \<open>a nil pointer is dereferenced\<close>
  | PanicIndex            \<comment> \<open>a slice index is out of range\<close>
  | PanicDivide           \<comment> \<open>an integer is divided by zero\<close>
  | PanicSanity           \<comment> \<open>one of the explicit \<^verbatim>\<open>panic\<close> sanity checks\<close>

section \<open>The cursor: seek and Seek (entry.go)\<close>

text \<open>
  \<^verbatim>\<open>seek\<close> reads the entry only through \<^verbatim>\<open>len(e.ep.pages)\<close>, here \<open>npages\<close>.
  The two pointer arguments become a pair that is returned updated.
\<close>

definition seek :: "int \<Rightarrow> int \<Rightarrow> int \<Rightarrow> int \<times> int \<Rightarrow> error + (int \<times> int)" where
  "seek ps npages offset cur =
     (let cursorPage = fst cur; cursorOff = snd cur;
          pos = i64 (i64 (i64 (cursorPage * ps) + cursorOff) + offset)
      in if pos < 0 then Inl ErrNegativePosition
         else let cursorPageNew = quot pos ps; cursorOffNew = rem pos ps
              in if cursorPageNew \<ge> npages then Inr (npages, 0)
                 else Inr (cursorPageNew, cursorOffNew))"

datatype whence = SeekStart | SeekCurrent | SeekEnd

text \<open>The part of an \<^verbatim>\<open>Entry\<close> that \<^verbatim>\<open>Seek\<close> touches.\<close>

record cursor =
  cursorOff :: int
  cursorPage :: int

definition Seek :: "int \<Rightarrow> int \<Rightarrow> int \<Rightarrow> whence \<Rightarrow> cursor \<Rightarrow> (error + int) \<times> cursor" where
  "Seek ps npages offset w e =
     (let start = (case w of SeekStart \<Rightarrow> (0, 0)
                           | SeekCurrent \<Rightarrow> (cursorPage e, cursorOff e)
                           | SeekEnd \<Rightarrow> (npages, 0))
      in case seek ps npages offset start of
           Inl err \<Rightarrow> (Inl err, e)
         | Inr (pageNum, pageOff) \<Rightarrow>
             (let e' = e\<lparr>cursorPage := pageNum, cursorOff := pageOff\<rparr>
              in (Inr (i64 (i64 (cursorPage e' * ps) + cursorOff e')), e')))"

text \<open>The byte offset \<^verbatim>\<open>Seek\<close> resolves, as the \<^verbatim>\<open>int64\<close> arithmetic of \<^verbatim>\<open>seek\<close> computes it.\<close>

definition resolved :: "int \<Rightarrow> int \<Rightarrow> int \<Rightarrow> whence \<Rightarrow> cursor \<Rightarrow> int" where
  "resolved ps npages offset w e =
     (case w of SeekStart \<Rightarrow> i64 (i64 (i64 (0 * ps) + 0) + offset)
              | SeekCurrent \<Rightarrow> i64 (i64 (i64 (cursorPage e * ps) + cursorOff e) + offset)
              | SeekEnd \<Rightarrow> i64 (i64 (i64 (npages * ps) + 0) + offset))"

section \<open>Physical pages, page tables and the page manager\<close>

text \<open>
  Pages are shared by pointer (the \<^verbatim>\<open>pages\<close> list of a tiered page and the leaves of
  its tree hold the same \<^verbatim>\<open>*physicalPage\<close>), so the \<^verbatim>\<open>physicalPage\<close> objects live in a
  store \<open>objs\<close> indexed by addresses; \<open>nextObj\<close> is the next unused address. The
  backing file, which every page points to, is its content \<open>disk\<close>, byte by byte.
\<close>

type_synonym byte = "8 word"
type_synonym u64 = "64 word"
type_synonym ptr = nat

record physicalPage =
  fileOff :: int
  usedSize :: int

text \<open>
  A \<^verbatim>\<open>pageTable\<close> (pagetable.go). The two Go maps with \<^verbatim>\<open>uint64\<close> keys are association
  lists with distinct keys, so that \<^verbatim>\<open>len\<close> is \<open>length\<close>; a key that is absent looks up
  as \<open>None\<close>, Go's \<^verbatim>\<open>nil\<close>. The tree owns its children; of the \<^verbatim>\<open>parent\<close> back pointer
  the model keeps whether it is set.
\<close>

datatype pageTable = PageTable
  (height: int)
  (hasParent: bool)
  (childTables: "(u64 \<times> pageTable) list")
  (childPages: "(u64 \<times> ptr) list")
  (pp: ptr)

record tieredPage =
  root :: pageTable
  tp_pp :: ptr
  tp_usedSize :: int
  pages :: "ptr list"

record recyclingPage =
  rp_tp :: tieredPage
  pagesToFree :: "ptr list"

text \<open>
  The \<^verbatim>\<open>PageManager\<close> is declared outside the files at hand; the model keeps the fields
  that the code at hand reads and writes (\<^verbatim>\<open>recyclePages\<close>, \<^verbatim>\<open>freePages\<close>, the file),
  and \<open>fileSize\<close>, the length of the backing file, for the allocator.
\<close>

record PageManager =
  disk :: "int \<Rightarrow> byte"
  objs :: "ptr \<Rightarrow> physicalPage"
  nextObj :: ptr
  fileSize :: int
  recyclePages :: bool
  freePages :: recyclingPage

type_synonym store = PageManager

text \<open>
  Modelled from the spec: \<^verbatim>\<open>physicalPage.writeAt\<close> is not among the files at hand.
  "\<^verbatim>\<open>write_at(buf, off)\<close> writes at most \<^verbatim>\<open>PAGE_SIZE - off\<close> bytes starting at \<^verbatim>\<open>off\<close> and
  updates \<^verbatim>\<open>used_size := max(used_size, off + written)\<close>", at the file offset
  \<^verbatim>\<open>file_off + off\<close>. The result is the number of bytes written and the new store;
  \<open>overlay base bs d\<close> is the file \<open>d\<close> with the bytes \<open>bs\<close> written at offset \<open>base\<close>.
  Writes of the backing file are taken to succeed.
\<close>

definition overlay :: "int \<Rightarrow> byte list \<Rightarrow> (int \<Rightarrow> byte) \<Rightarrow> int \<Rightarrow> byte" where
  "overlay base bs d i =
     (if base \<le> i \<and> i < base + int (length bs) then bs ! nat (i - base) else d i)"

definition writeAt :: "int \<Rightarrow> store \<Rightarrow> ptr \<Rightarrow> byte list \<Rightarrow> int \<Rightarrow> nat \<times> store" where
  "writeAt ps st pg data off =
     (let n = nat (min (int (length data)) (ps - off));
          base = fileOff (objs st pg) + off;
          pgo = objs st pg
      in (n, st\<lparr>disk := overlay base (take n data) (disk st),
                objs := (objs st)(pg := pgo\<lparr>usedSize := max (usedSize pgo) (off + int n)\<rparr>)\<rparr>))"

text \<open>
  Modelled from the spec: \<^verbatim>\<open>physicalPage.readAt\<close> is not among the files at hand.
  "\<^verbatim>\<open>read_at(buf, off)\<close> reads at most \<^verbatim>\<open>PAGE_SIZE - off\<close> bytes, never crossing the page
  boundary, returning bytes read and a short-read indication at end-of-used-region",
  at the file offset \<^verbatim>\<open>file_off + off\<close>. The read stops where the used region of the
  page ends. The result is Go's \<^verbatim>\<open>err\<close> and the bytes read, in order, whose number is
  Go's \<^verbatim>\<open>n\<close>: \<^verbatim>\<open>err\<close> is the short-read indication when the used region ends before
  the bytes asked for, up to the page boundary, are read, and \<^verbatim>\<open>nil\<close> otherwise. Which
  error value the indication is the spec does not say; \<open>ErrShortRead\<close> stands for it.
\<close>

definition page_bytes :: "store \<Rightarrow> ptr \<Rightarrow> int \<Rightarrow> nat \<Rightarrow> byte list" where
  "page_bytes st pg off n = map (\<lambda>i. disk st (fileOff (objs st pg) + off + int i)) [0 ..< n]"

definition readAt :: "int \<Rightarrow> store \<Rightarrow> ptr \<Rightarrow> nat \<Rightarrow> int \<Rightarrow> error option \<times> byte list" where
  "readAt ps st pg len off =
     (let want = nat (min (int len) (ps - off));
          n = min want (nat (usedSize (objs st pg) - off))
      in (if n < want then Some ErrShortRead else None, page_bytes st pg off n))"

section \<open>Serialisation (encoding/binary)\<close>

text \<open>\<^verbatim>\<open>binary.LittleEndian.PutUint64\<close> and \<^verbatim>\<open>Uint64\<close>.\<close>

fun le_bytes :: "nat \<Rightarrow> nat \<Rightarrow> byte list" where
  "le_bytes 0 v = []"
| "le_bytes (Suc n) v = word_of_nat v # le_bytes n (v div 256)"

definition putUint64 :: "nat \<Rightarrow> byte list" where
  "putUint64 v = le_bytes 8 v"

fun le_value :: "byte list \<Rightarrow> nat" where
  "le_value [] = 0"
| "le_value (b # bs) = unat b + 256 * le_value bs"

definition uint64le :: "byte list \<Rightarrow> nat" where
  "uint64le bs = le_value (take 8 bs)"

text \<open>
  \<^verbatim>\<open>binary.PutVarint\<close> into a fresh slice of 8 bytes: the zig-zag value in groups of 7
  bits, low group first; it panics when the groups need more than the 8 bytes.
\<close>

definition zigzag :: "int \<Rightarrow> nat" where
  "zigzag x = (if x < 0 then nat (- 2 * x - 1) else nat (2 * x))"

function putUvarint :: "nat \<Rightarrow> byte list" where
  "putUvarint x =
     (if x < 128 then [word_of_nat x]
      else word_of_nat (x mod 128 + 128) # putUvarint (x div 128))"
  by pat_completeness auto
termination
  by (relation "measure id") auto

declare putUvarint.simps [simp del]

definition putVarint8 :: "int \<Rightarrow> error + byte list" where
  "putVarint8 x =
     (let bs = putUvarint (zigzag x)
      in if length bs > 8 then Inl PanicIndex
         else Inr (bs @ replicate (8 - length bs) 0))"

text \<open>
  \<^verbatim>\<open>binary.Varint\<close> on a slice of at most 8 bytes (the overflow exits of \<^verbatim>\<open>Uvarint\<close> need
  ten): the value and the number of bytes read, \<open>(0, 0)\<close> when the slice ends first.
\<close>

fun uvarint :: "byte list \<Rightarrow> nat \<Rightarrow> nat \<Rightarrow> nat \<Rightarrow> nat \<times> int" where
  "uvarint [] x s i = (0, 0)"
| "uvarint (b # bs) x s i =
     (if unat b < 128 then (x + unat b * 2 ^ s, int i + 1)
      else uvarint bs (x + (unat b mod 128) * 2 ^ s) (s + 7) (i + 1))"

definition varint :: "byte list \<Rightarrow> int \<times> int" where
  "varint buf =
     (let (ux, n) = uvarint buf 0 0 0
      in (if odd ux then - int (ux div 2) - 1 else int (ux div 2), n))"

section \<open>Page tables on disk (pagetable.go, tieredpage.go)\<close>

text \<open>
  \<^verbatim>\<open>marshal\<close> reads the slots \<open>0, ..., len - 1\<close> of the map that the height selects; a slot
  that is absent yields \<^verbatim>\<open>nil\<close>, whose field access panics.
\<close>

fun sequence_err :: "(error + 'a) list \<Rightarrow> error + 'a list" where
  "sequence_err [] = Inr []"
| "sequence_err (x # xs) =
     (case x of Inl e \<Rightarrow> Inl e
      | Inr v \<Rightarrow> (case sequence_err xs of Inl e \<Rightarrow> Inl e | Inr vs \<Rightarrow> Inr (v # vs)))"

definition marshal_offsets :: "store \<Rightarrow> pageTable \<Rightarrow> error + int list" where
  "marshal_offsets st pt =
     (if height pt = 0
      then sequence_err (map (\<lambda>i. case map_of (childPages pt) (word_of_nat i) of
                                      None \<Rightarrow> Inl PanicNilDeref
                                    | Some pg \<Rightarrow> Inr (fileOff (objs st pg)))
                             [0 ..< length (childPages pt)])
      else sequence_err (map (\<lambda>i. case map_of (childTables pt) (word_of_nat i) of
                                      None \<Rightarrow> Inl PanicNilDeref
                                    | Some c \<Rightarrow> Inr (fileOff (objs st (pp c))))
                             [0 ..< length (childTables pt)]))"

definition marshal :: "store \<Rightarrow> pageTable \<Rightarrow> error + byte list" where
  "marshal st pt =
     (case marshal_offsets st pt of
        Inl e \<Rightarrow> Inl e
      | Inr offsets \<Rightarrow>
          (case sequence_err (map putVarint8 offsets) of
             Inl e \<Rightarrow> Inl e
           | Inr slots \<Rightarrow> Inr (putUint64 (length offsets) @ concat slots)))"

definition writeToDisk :: "int \<Rightarrow> store \<Rightarrow> pageTable \<Rightarrow> error + store" where
  "writeToDisk ps st pt =
     (case marshal st pt of
        Inl e \<Rightarrow> Inl e
      | Inr data \<Rightarrow> Inr (snd (writeAt ps st (pp pt) data 0)))"

text \<open>
  Modelled from the spec: the constant \<^verbatim>\<open>tieredPageEntrySize\<close> is declared outside the
  files at hand; "\<^verbatim>\<open>TIERED_ENTRY_SIZE\<close> is fixed (16 bytes)".
\<close>

definition tieredPageEntrySize :: int where
  "tieredPageEntrySize = 16"

definition writeTieredPageEntry :: "int \<Rightarrow> store \<Rightarrow> ptr \<Rightarrow> int \<Rightarrow> int \<Rightarrow> int \<Rightarrow> error + store" where
  "writeTieredPageEntry ps st pg index usedBytes pageOff =
     (case putVarint8 usedBytes of
        Inl e \<Rightarrow> Inl e
      | Inr d1 \<Rightarrow>
          (case putVarint8 pageOff of
             Inl e \<Rightarrow> Inl e
           | Inr d2 \<Rightarrow> Inr (snd (writeAt ps st pg (d1 @ d2) (index * tieredPageEntrySize)))))"

text \<open>\<^verbatim>\<open>unmarshalPageTable\<close> and \<^verbatim>\<open>readPageTable\<close>, which reads a whole page.\<close>

fun unmarshal_entries :: "byte list \<Rightarrow> nat \<Rightarrow> error + int list" where
  "unmarshal_entries data 0 = Inr []"
| "unmarshal_entries data (Suc n) =
     (if length data < 8 then Inl PanicIndex
      else let (offset, bytesRead) = varint (take 8 data)
           in if offset = 0 \<and> bytesRead \<le> 0 then Inl ErrUnmarshal
              else (case unmarshal_entries (drop 8 data) n of
                      Inl e \<Rightarrow> Inl e
                    | Inr es \<Rightarrow> Inr (offset # es)))"

definition unmarshalPageTable :: "nat \<Rightarrow> byte list \<Rightarrow> error + int list" where
  "unmarshalPageTable npe data =
     (if length data < 8 then Inl PanicSanity
      else let numEntries = uint64le (take 8 data)
           in if numEntries > npe then Inl PanicSanity
              else if length (drop 8 data) < numEntries * 8 then Inl PanicSanity
              else unmarshal_entries (drop 8 data) numEntries)"

definition readPageTable :: "int \<Rightarrow> nat \<Rightarrow> store \<Rightarrow> ptr \<Rightarrow> error + int list" where
  "readPageTable ps npe st pg =
     (case readAt ps st pg (nat ps) 0 of
        (Some e, bs) \<Rightarrow> Inl e
      | (None, bs) \<Rightarrow> unmarshalPageTable npe (bs @ replicate (nat ps - length bs) 0))"

section \<open>Results of calls that may fail, panic or not return\<close>

text \<open>
  A call yields \<open>Some (Inr v)\<close> when it returns \<open>v\<close>, \<open>Some (Inl e)\<close> when it returns the
  error \<open>e\<close> or panics, and \<open>None\<close> when it does not return.
\<close>

type_synonym 'a res = "(error + 'a) option"

definition bindR :: "'a res \<Rightarrow> ('a \<Rightarrow> 'b res) \<Rightarrow> 'b res" where
  "bindR m f = Option.bind m (\<lambda>r. case r of Inl e \<Rightarrow> Some (Inl e) | Inr x \<Rightarrow> f x)"

lemma bindR_mono [partial_function_mono]:
  assumes "mono_option B" and "\<And>y. mono_option (\<lambda>f. C y f)"
  shows "mono_option (\<lambda>f. bindR (B f) (\<lambda>y. C y f))"
  unfolding bindR_def
proof (rule bind_mono [OF assms(1)])
  fix r
  show "mono_option (\<lambda>f. case r of Inl e \<Rightarrow> Some (Inl e) | Inr x \<Rightarrow> C x f)"
    by (cases r) (simp_all add: assms(2) option.const_mono)
qed

lemma bindR_simps [simp, code]:
  "bindR None f = None"
  "bindR (Some (Inl e)) f = Some (Inl e)"
  "bindR (Some (Inr x)) f = f x"
  by (simp_all add: bindR_def)

section \<open>Truncating and defragmenting a tiered page (tieredpage.go)\<close>

text \<open>Field updates of a \<^verbatim>\<open>pageTable\<close>.\<close>

definition set_childTables :: "pageTable \<Rightarrow> (u64 \<times> pageTable) list \<Rightarrow> pageTable" where
  "set_childTables pt cts = PageTable (height pt) (hasParent pt) cts (childPages pt) (pp pt)"

definition set_childPages :: "pageTable \<Rightarrow> (u64 \<times> ptr) list \<Rightarrow> pageTable" where
  "set_childPages pt cps = PageTable (height pt) (hasParent pt) (childTables pt) cps (pp pt)"

definition set_parent :: "pageTable \<Rightarrow> bool \<Rightarrow> pageTable" where
  "set_parent pt b = PageTable (height pt) b (childTables pt) (childPages pt) (pp pt)"

text \<open>
  The two loops of \<^verbatim>\<open>recursiveTruncate\<close>, whose condition \<^verbatim>\<open>i >= 0\<close> always holds for
  the \<^verbatim>\<open>uint64\<close> index: an iteration returns, panics or goes on with \<open>i - 1\<close>, which
  below zero is \<open>2^64 - 1\<close>. \<open>acc\<close> is \<^verbatim>\<open>pagesToFree\<close>. The
  table is changed in place in Go; here the changed table is returned with the store
  and the tiered page (of which \<^verbatim>\<open>usedSize\<close> and \<^verbatim>\<open>pages\<close> change).
\<close>

type_synonym trunc = "bool \<times> ptr list \<times> pageTable \<times> store \<times> tieredPage"

definition first_index :: "pageTable \<Rightarrow> u64" where
  "first_index pt =
     (if height pt > 0 then word_of_nat (length (childTables pt)) - 1
      else word_of_nat (length (childPages pt)) - 1)"

partial_function (option) truncate_loop ::
  "int \<Rightarrow> int \<Rightarrow> store \<Rightarrow> tieredPage \<Rightarrow> pageTable \<Rightarrow> u64 \<Rightarrow> ptr list \<Rightarrow> trunc res" where
  "truncate_loop ps sz st tp pt i acc =
     (if height pt > 0 then
        (if tp_usedSize tp \<le> sz then Some (Inr (False, acc, pt, st, tp))
         else case map_of (childTables pt) i of
           None \<Rightarrow> Some (Inl PanicNilDeref)
         | Some child \<Rightarrow>
             bindR (truncate_loop ps sz st tp child (first_index child) [])
               (\<lambda>(empty, freePages, child', st', tp').
                  if empty then
                    (let pt' = set_childTables pt (AList.delete i (childTables pt));
                         acc' = acc @ freePages @ [pp child']
                     in case writeToDisk ps st' pt' of
                          Inl e \<Rightarrow> Some (Inl e)
                        | Inr st'' \<Rightarrow>
                            if length (childTables pt') = 0
                            then Some (Inr (True, acc', pt', st'', tp'))
                            else truncate_loop ps sz st'' tp' pt' (i - 1) acc')
                  else truncate_loop ps sz st' tp'
                         (set_childTables pt (AList.update i child' (childTables pt)))
                         (i - 1) (acc @ freePages)))
      else if height pt = 0 then
        (if tp_usedSize tp \<le> sz then Some (Inr (False, acc, pt, st, tp))
         else case map_of (childPages pt) i of
           None \<Rightarrow> Some (Inl PanicNilDeref)
         | Some page \<Rightarrow>
             (let remainingTruncation = tp_usedSize tp - sz;
                  pgo = objs st page
              in if remainingTruncation < usedSize pgo then
                   truncate_loop ps sz
                     (st\<lparr>objs := (objs st)
                            (page := pgo\<lparr>usedSize := usedSize pgo - remainingTruncation\<rparr>)\<rparr>)
                     (tp\<lparr>tp_usedSize := tp_usedSize tp - remainingTruncation\<rparr>)
                     pt (i - 1) acc
                 else if pages tp = [] then Some (Inl PanicIndex)
                 else if fileOff (objs st (last (pages tp))) \<noteq> fileOff pgo
                   then Some (Inl PanicSanity)
                 else
                   (let pt' = set_childPages pt (AList.delete i (childPages pt));
                        tp' = tp\<lparr>pages := butlast (pages tp),
                                 tp_usedSize := tp_usedSize tp - usedSize pgo\<rparr>
                    in if length (childPages pt') = 0
                       then Some (Inr (True, acc @ [page], pt', st, tp'))
                       else truncate_loop ps sz st tp' pt' (i - 1) (acc @ [page]))))
      else Some (Inl PanicSanity))"

declare truncate_loop.simps [code]

text \<open>
  \<^verbatim>\<open>recursiveTruncate\<close> called on the root, as \<^verbatim>\<open>Truncate\<close> and \<^verbatim>\<open>freePage\<close> call it: the
  root of the tiered page is the table that the loops leave.
\<close>

definition recursiveTruncate ::
  "int \<Rightarrow> store \<Rightarrow> tieredPage \<Rightarrow> int \<Rightarrow> (bool \<times> ptr list \<times> store \<times> tieredPage) res" where
  "recursiveTruncate ps st tp sz =
     bindR (truncate_loop ps sz st tp (root tp) (first_index (root tp)) [])
       (\<lambda>(empty, toFree, rt, st', tp'). Some (Inr (empty, toFree, st', tp'\<lparr>root := rt\<rparr>)))"

text \<open>A child stored in a table is smaller than the table, for the recursion of \<^verbatim>\<open>defrag\<close>.\<close>

lemma size_child_less:
  "map_of cts k = Some c \<Longrightarrow> size c < size (PageTable h b cts cps p)"
proof -
  assume "map_of cts k = Some c"
  then have "(k, c) \<in> set cts" by (rule map_of_SomeD)
  then have "size c < Suc (size_list (size_prod (\<lambda>x. 0) size) cts)"
    by (induction cts) auto
  then show ?thesis by simp
qed

text \<open>
  The loop of \<^verbatim>\<open>defrag\<close>: while the root has a positive height and exactly one child,
  the child in slot 0 becomes the root and the page of the old root is collected.
\<close>

function defrag_loop ::
  "int \<Rightarrow> store \<Rightarrow> ptr \<Rightarrow> int \<Rightarrow> pageTable \<Rightarrow> ptr list
     \<Rightarrow> error + (store \<times> pageTable \<times> ptr list)" where
  "defrag_loop ps st tpp used rt acc =
     (if height rt > 0 \<and> length (childTables rt) = 1 then
        (case map_of (childTables rt) 0 of
           None \<Rightarrow> Inl PanicNilDeref
         | Some child \<Rightarrow>
             (case writeTieredPageEntry ps st tpp (height child) used
                     (fileOff (objs st (pp child))) of
                Inl e \<Rightarrow> Inl e
              | Inr st1 \<Rightarrow>
                  (case writeTieredPageEntry ps st1 tpp (height rt) 0 0 of
                     Inl e \<Rightarrow> Inl e
                   | Inr st2 \<Rightarrow>
                       defrag_loop ps st2 tpp used (set_parent child False) (acc @ [pp rt]))))
      else Inr (st, rt, acc))"
  by pat_completeness auto
termination
proof (relation "measure (\<lambda>(ps, st, tpp, used, rt, acc). size rt)", goal_cases)
  case 1
  show ?case by simp
next
  case (2 ps st tpp used rt acc child st1 st2)
  obtain h b cts cps p where rt: "rt = PageTable h b cts cps p" by (cases rt)
  have "size child < size rt"
    using 2(2) unfolding rt by (simp only: pageTable.sel) (rule size_child_less)
  moreover have "size (set_parent child False) = size child"
    by (cases child) (simp add: set_parent_def)
  ultimately show ?case by simp
qed

declare defrag_loop.simps [simp del]

definition defrag :: "int \<Rightarrow> store \<Rightarrow> tieredPage \<Rightarrow> error + (ptr list \<times> store \<times> tieredPage)" where
  "defrag ps st tp =
     (case writeTieredPageEntry ps st (tp_pp tp) (height (root tp)) (tp_usedSize tp)
             (fileOff (objs st (pp (root tp)))) of
        Inl e \<Rightarrow> Inl e
      | Inr st1 \<Rightarrow>
          (case defrag_loop ps st1 (tp_pp tp) (tp_usedSize tp) (root tp) [] of
             Inl e \<Rightarrow> Inl e
           | Inr (st2, rt, toFree) \<Rightarrow> Inr (toFree, st2, tp\<lparr>root := rt\<rparr>)))"

section \<open>The recycling page and the allocator\<close>

definition availablePages :: "recyclingPage \<Rightarrow> nat" where
  "availablePages rp = length (pagesToFree rp) + length (pages (rp_tp rp))"

text \<open>
  \<^verbatim>\<open>freePage\<close>. The deferred function sets \<^verbatim>\<open>usedSize\<close> of the page returned to 0.
\<close>

definition freePage :: "int \<Rightarrow> store \<Rightarrow> recyclingPage \<Rightarrow> (ptr \<times> store \<times> recyclingPage) res" where
  "freePage ps st rp =
     (if availablePages rp = 0 then Some (Inl ErrNoFreePages)
      else if length (pagesToFree rp) > 0 then
        (let p = last (pagesToFree rp)
         in Some (Inr (p, st\<lparr>objs := (objs st)(p := (objs st p)\<lparr>usedSize := 0\<rparr>)\<rparr>,
                       rp\<lparr>pagesToFree := butlast (pagesToFree rp)\<rparr>)))
      else if pages (rp_tp rp) = [] then Some (Inl PanicIndex)
      else
        (let page = last (pages (rp_tp rp))
         in bindR (recursiveTruncate ps st (rp_tp rp) (tp_usedSize (rp_tp rp) - ps))
              (\<lambda>(empty, pagesToFree1, st1, tp1).
                 if pagesToFree1 = [] then Some (Inl PanicIndex)
                 else if hd pagesToFree1 \<noteq> page then Some (Inl PanicSanity)
                 else case defrag ps st1 tp1 of
                        Inl e \<Rightarrow> Some (Inl e)
                      | Inr (pagesToFree2, st2, tp2) \<Rightarrow>
                          Some (Inr (page,
                            st2\<lparr>objs := (objs st2)(page := (objs st2 page)\<lparr>usedSize := 0\<rparr>)\<rparr>,
                            \<lparr>rp_tp = tp2,
                             pagesToFree = pagesToFree rp @ tl pagesToFree1 @ pagesToFree2\<rparr>)))))"

text \<open>
  Modelled from the spec: \<^verbatim>\<open>PageManager.allocatePage\<close> is not among the files at hand.
  "\<^verbatim>\<open>allocate_page()\<close> returns a page either from the recycling tree (via \<^verbatim>\<open>free_page\<close>)
  or by extending the backing file by \<^verbatim>\<open>PAGE_SIZE\<close>", "recycler-first", and "a flag
  \<^verbatim>\<open>recycle_pages\<close> gates whether \<^verbatim>\<open>allocate_page\<close> may call into the recycler". A page
  that extends the file is a new object, at the end of the file, with nothing used.
\<close>

definition allocatePage :: "int \<Rightarrow> PageManager \<Rightarrow> (ptr \<times> PageManager) res" where
  "allocatePage ps pm =
     (if recyclePages pm \<and> availablePages (freePages pm) > 0 then
        bindR (freePage ps pm (freePages pm))
          (\<lambda>(page, pm', rp'). Some (Inr (page, pm'\<lparr>freePages := rp'\<rparr>)))
      else
        (let a = nextObj pm
         in Some (Inr (a, pm\<lparr>objs := (objs pm)(a := \<lparr>fileOff = fileSize pm, usedSize = 0\<rparr>),
                            nextObj := Suc a,
                            fileSize := fileSize pm + ps\<rparr>))))"

section \<open>Growing the tree and inserting a page (pagetable.go, tieredpage.go)\<close>

definition newPageTable :: "int \<Rightarrow> PageManager \<Rightarrow> int \<Rightarrow> bool \<Rightarrow> (pageTable \<times> PageManager) res" where
  "newPageTable ps pm h parent =
     bindR (allocatePage ps pm) (\<lambda>(pg, pm'). Some (Inr (PageTable h parent [] [] pg, pm')))"

definition extendPageTableTree :: "int \<Rightarrow> PageManager \<Rightarrow> pageTable \<Rightarrow> (pageTable \<times> PageManager) res" where
  "extendPageTableTree ps pm rt =
     (if hasParent rt then Some (Inl PanicSanity)
      else bindR (newPageTable ps pm (height rt + 1) False)
             (\<lambda>(newRoot, pm').
                Some (Inr (set_childTables newRoot
                             (AList.update 0 (set_parent rt True) (childTables newRoot)),
                           pm'))))"

text \<open>
  \<^verbatim>\<open>maxPages\<close> is \<^verbatim>\<open>uint64(math.Pow(numPageEntries, float64(height+1)))\<close>; the model
  computes the power on natural numbers, which the floating point power equals as long
  as it is below \<open>2^53\<close>.
\<close>

definition maxPages :: "nat \<Rightarrow> int \<Rightarrow> nat" where
  "maxPages npe h = (if h + 1 < 0 then 0 else npe ^ nat (h + 1))"

text \<open>The first loop of \<^verbatim>\<open>insertPage\<close>: new roots until the index fits.\<close>

partial_function (option) grow ::
  "int \<Rightarrow> nat \<Rightarrow> PageManager \<Rightarrow> pageTable \<Rightarrow> nat \<Rightarrow> (pageTable \<times> PageManager) res" where
  "grow ps npe pm rt index =
     (if index \<ge> maxPages npe (height rt) then
        bindR (extendPageTableTree ps pm rt) (\<lambda>(newRoot, pm'). grow ps npe pm' newRoot index)
      else Some (Inr (rt, pm)))"

declare grow.simps [code]

text \<open>
  The second loop of \<^verbatim>\<open>insertPage\<close> and the insertion into the leaf. The loop walks
  down from \<open>pt\<close>; the model returns the table \<open>pt\<close> with the path below it changed.
  \<open>pageIndex\<close> is the variable of that name, \<open>index\<close> the argument of \<^verbatim>\<open>insertPage\<close>.
\<close>

partial_function (option) descend ::
  "int \<Rightarrow> nat \<Rightarrow> PageManager \<Rightarrow> pageTable \<Rightarrow> nat \<Rightarrow> nat \<Rightarrow> ptr \<Rightarrow> (pageTable \<times> PageManager) res" where
  "descend ps npe pm pt pageIndex index pg =
     (if height pt > 0 then
        (if maxPages npe (height pt - 1) = 0 then Some (Inl PanicDivide)
         else
           let tableIndex = (word_of_nat (pageIndex div maxPages npe (height pt - 1)) :: u64);
               pageIndex' = pageIndex div npe
           in case map_of (childTables pt) tableIndex of
                Some child \<Rightarrow>
                  bindR (descend ps npe pm child pageIndex' index pg)
                    (\<lambda>(child', pm').
                       Some (Inr (set_childTables pt
                                    (AList.update tableIndex child' (childTables pt)), pm')))
              | None \<Rightarrow>
                  bindR (newPageTable ps pm (height pt - 1) True)
                    (\<lambda>(newPt, pm1).
                       let pt1 = set_childTables pt
                                   (AList.update tableIndex newPt (childTables pt))
                       in case writeToDisk ps pm1 pt1 of
                            Inl e \<Rightarrow> Some (Inl e)
                          | Inr pm2 \<Rightarrow>
                              bindR (descend ps npe pm2 newPt pageIndex' index pg)
                                (\<lambda>(child', pm3).
                                   Some (Inr (set_childTables pt1
                                                (AList.update tableIndex child'
                                                   (childTables pt1)), pm3)))))
      else if length (childPages pt) = npe then Some (Inl PanicSanity)
      else if npe = 0 then Some (Inl PanicDivide)
      else if length (childPages pt) > 0
              \<and> map_of (childPages pt) ((word_of_nat (index mod npe) :: u64) - 1) = None
        then Some (Inl PanicSanity)
      else
        (let pt' = set_childPages pt
                     (AList.update (word_of_nat (index mod npe)) pg (childPages pt))
         in case writeToDisk ps pm pt' of
              Inl e \<Rightarrow> Some (Inl e)
            | Inr pm' \<Rightarrow> Some (Inr (pt', pm'))))"

declare descend.simps [code]

definition insertPage ::
  "int \<Rightarrow> nat \<Rightarrow> PageManager \<Rightarrow> tieredPage \<Rightarrow> nat \<Rightarrow> ptr \<Rightarrow> (tieredPage \<times> PageManager) res" where
  "insertPage ps npe pm tp index pg =
     bindR (grow ps npe pm (root tp) index)
       (\<lambda>(rt, pm1).
          bindR (descend ps npe pm1 rt index index pg)
            (\<lambda>(rt', pm2). Some (Inr (tp\<lparr>root := rt'\<rparr>, pm2))))"

section \<open>Adding pages to a tiered page (tieredpage.go)\<close>

definition nextIndex :: "int \<Rightarrow> tieredPage \<Rightarrow> nat" where
  "nextIndex ps tp = unat (word_of_int (quot (tp_usedSize tp) ps) :: u64)"

text \<open>
  The loop that both \<^verbatim>\<open>addPages\<close> run; \<open>full\<close> tells the one of the recycling page,
  which first sets \<^verbatim>\<open>page.usedSize = pageSize\<close>. The root pointer changes exactly when
  \<^verbatim>\<open>insertPage\<close> has put new roots on top, which is when the height of the root changes.
\<close>

fun addPages_loop ::
  "int \<Rightarrow> nat \<Rightarrow> bool \<Rightarrow> PageManager \<Rightarrow> tieredPage \<Rightarrow> nat \<Rightarrow> ptr list
     \<Rightarrow> (tieredPage \<times> PageManager) res" where
  "addPages_loop ps npe full pm tp index [] = Some (Inr (tp, pm))"
| "addPages_loop ps npe full pm tp index (page # rest) =
     (let pm0 = (if full
                 then pm\<lparr>objs := (objs pm)(page := (objs pm page)\<lparr>usedSize := ps\<rparr>)\<rparr>
                 else pm);
          rt = root tp
      in bindR (insertPage ps npe pm0 tp index page)
           (\<lambda>(tp', pm1).
              if height (root tp') \<noteq> height rt then
                (case writeTieredPageEntry ps pm1 (tp_pp tp') (height rt)
                        (int (maxPages npe (height rt)) * ps) (fileOff (objs pm1 (pp rt))) of
                   Inl e \<Rightarrow> Some (Inl e)
                 | Inr pm2 \<Rightarrow> addPages_loop ps npe full pm2 tp' (index + 1) rest)
              else addPages_loop ps npe full pm1 tp' (index + 1) rest))"

text \<open>\<^verbatim>\<open>entryPage.addPages\<close>.\<close>

definition addPages ::
  "int \<Rightarrow> nat \<Rightarrow> PageManager \<Rightarrow> tieredPage \<Rightarrow> ptr list \<Rightarrow> int
     \<Rightarrow> (tieredPage \<times> PageManager) res" where
  "addPages ps npe pm ep pgs addedBytes =
     (if addedBytes = 0 then Some (Inr (ep, pm))
      else if nextIndex ps ep + length pgs \<noteq> length (pages ep) then Some (Inl PanicSanity)
      else bindR (addPages_loop ps npe False pm ep (nextIndex ps ep) pgs)
             (\<lambda>(ep1, pm1).
                let ep2 = ep1\<lparr>tp_usedSize := tp_usedSize ep1 + addedBytes\<rparr>
                in case writeTieredPageEntry ps pm1 (tp_pp ep2) (height (root ep2))
                          (tp_usedSize ep2) (fileOff (objs pm1 (pp (root ep2)))) of
                     Inl e \<Rightarrow> Some (Inl e)
                   | Inr pm2 \<Rightarrow> Some (Inr (ep2, pm2))))"

text \<open>
  \<^verbatim>\<open>recyclingPage.addPages\<close>, on the recycling page of the page manager. Recycling is off
  while the pages are inserted and on again when the call returns.
\<close>

definition addPages_recycling :: "int \<Rightarrow> nat \<Rightarrow> PageManager \<Rightarrow> ptr list \<Rightarrow> PageManager res" where
  "addPages_recycling ps npe pm pgs =
     (let rp = freePages pm;
          tp = (rp_tp rp)\<lparr>pages := pages (rp_tp rp) @ pgs\<rparr>
      in bindR (addPages_loop ps npe True (pm\<lparr>recyclePages := False\<rparr>) tp (nextIndex ps tp) pgs)
           (\<lambda>(tp1, pm1).
              let tp2 = tp1\<lparr>tp_usedSize := tp_usedSize tp1 + int (length pgs) * ps\<rparr>
              in case writeTieredPageEntry ps pm1 (tp_pp tp2) (height (root tp2))
                        (tp_usedSize tp2) (fileOff (objs pm1 (pp (root tp2)))) of
                   Inl e \<Rightarrow> Some (Inl e)
                 | Inr pm2 \<Rightarrow>
                     Some (Inr (pm2\<lparr>recyclePages := True,
                                    freePages := rp\<lparr>rp_tp := tp2\<rparr>\<rparr>))))"

text \<open>\<^verbatim>\<open>Entry.Truncate\<close> (entry.go).\<close>

definition Truncate :: "int \<Rightarrow> nat \<Rightarrow> PageManager \<Rightarrow> tieredPage \<Rightarrow> int \<Rightarrow> (tieredPage \<times> PageManager) res" where
  "Truncate ps npe pm ep sz =
     bindR (recursiveTruncate ps pm ep sz)
       (\<lambda>(empty, pagesToFree1, pm1, ep1).
          case defrag ps pm1 ep1 of
            Inl e \<Rightarrow> Some (Inl e)
          | Inr (pagesToFree2, pm2, ep2) \<Rightarrow>
              bindR (addPages_recycling ps npe pm2 (pagesToFree1 @ pagesToFree2))
                (\<lambda>pm3. Some (Inr (ep2, pm3))))"

section \<open>Recovering the tree from disk (tieredpage.go)\<close>

text \<open>
  \<^verbatim>\<open>recursiveRecovery\<close> and its loop over the entries read from the page of \<open>parent\<close>.
  \<open>remaining\<close> is \<^verbatim>\<open>*remainingBytes\<close>, \<open>acc\<close> the pages collected so far. Every entry gets
  a new \<^verbatim>\<open>physicalPage\<close> object. The slot written is \<^verbatim>\<open>uint64(len(...) - 1)\<close>.
\<close>

function recursiveRecovery ::
    "int \<Rightarrow> nat \<Rightarrow> store \<Rightarrow> pageTable \<Rightarrow> int \<Rightarrow> int
       \<Rightarrow> error + (ptr list \<times> pageTable \<times> store \<times> int)"
  and recovery_loop ::
    "int \<Rightarrow> nat \<Rightarrow> store \<Rightarrow> pageTable \<Rightarrow> int \<Rightarrow> int \<Rightarrow> int list \<Rightarrow> ptr list
       \<Rightarrow> error + (ptr list \<times> pageTable \<times> store \<times> int)" where
  "recursiveRecovery ps npe st parent h remaining =
     (case readPageTable ps npe st (pp parent) of
        Inl e \<Rightarrow> Inl e
      | Inr entries \<Rightarrow> recovery_loop ps npe st parent h remaining entries [])"
| "recovery_loop ps npe st parent h remaining [] acc = Inr (acc, parent, st, remaining)"
| "recovery_loop ps npe st parent h remaining (offset # rest) acc =
     (let a = nextObj st;
          st1 = st\<lparr>objs := (objs st)(a := \<lparr>fileOff = offset, usedSize = ps\<rparr>),
                   nextObj := Suc a\<rparr>
      in if h > 0 then
           (case recursiveRecovery ps npe st1 (PageTable h True [] [] a) (h - 1) remaining of
              Inl e \<Rightarrow> Inl e
            | Inr (p, pt, st2, remaining2) \<Rightarrow>
                recovery_loop ps npe st2
                  (set_childTables parent
                     (AList.update (word_of_nat (length (childTables parent)) - 1) pt
                        (childTables parent)))
                  h remaining2 rest (acc @ p))
         else if h = 0 then
           (let u = (if remaining > ps then ps else remaining);
                remaining2 = (if remaining > ps then remaining - ps else 0);
                st2 = st1\<lparr>objs := (objs st1)(a := (objs st1 a)\<lparr>usedSize := u\<rparr>)\<rparr>
            in recovery_loop ps npe st2
                 (set_childPages parent
                    (AList.update (word_of_nat (length (childPages parent)) - 1) a
                       (childPages parent)))
                 h remaining2 rest (acc @ [a]))
         else Inl PanicSanity)"
  by pat_completeness auto
termination
  by (relation "measures
         [\<lambda>x. case x of
                 Inl (ps, npe, st, parent, h, remaining) \<Rightarrow> 2 * nat h + 1
               | Inr (ps, npe, st, parent, h, remaining, es, acc) \<Rightarrow> 2 * nat h,
          \<lambda>x. case x of
                 Inl (ps, npe, st, parent, h, remaining) \<Rightarrow> 0
               | Inr (ps, npe, st, parent, h, remaining, es, acc) \<Rightarrow> length es]")
     auto

declare recursiveRecovery.simps [simp del]
declare recovery_loop.simps [simp del]

definition recoverTree :: "int \<Rightarrow> nat \<Rightarrow> store \<Rightarrow> tieredPage \<Rightarrow> int \<Rightarrow> int \<Rightarrow> error + (tieredPage \<times> store)" where
  "recoverTree ps npe st tp rootOff h =
     (let a = nextObj st;
          st1 = st\<lparr>objs := (objs st)(a := \<lparr>fileOff = rootOff, usedSize = ps\<rparr>),
                   nextObj := Suc a\<rparr>
      in case recursiveRecovery ps npe st1 (PageTable h False [] [] a) h (tp_usedSize tp) of
           Inl e \<Rightarrow> Inl e
         | Inr (pgs, rt, st2, remaining) \<Rightarrow> Inr (tp\<lparr>pages := pgs, root := rt\<rparr>, st2))"

section \<open>Reading (entry.go)\<close>









text \<open>
  A page manager and an empty entry for examples with pages of 64 bytes and two entries
  per page table: the page object at address \<open>a\<close> is the full page at file offset
  \<open>64 * a\<close>, the file ends behind page 99, and the recycling page is empty.
\<close>

definition example_pm :: PageManager where
  "example_pm =
     \<lparr>disk = (\<lambda>i. 0),
      objs = (\<lambda>a. \<lparr>fileOff = int a * 64, usedSize = 64\<rparr>),
      nextObj = 100, fileSize = 6400, recyclePages = True,
      freePages = \<lparr>rp_tp = \<lparr>root = PageTable 0 False [] [] 0, tp_pp = 1,
                                  tp_usedSize = 0, pages = []\<rparr>,
                   pagesToFree = []\<rparr>\<rparr>"

definition example_entry :: tieredPage where
  "example_entry =
     \<lparr>root = PageTable 0 False [] [] 50, tp_pp = 51, tp_usedSize = 0, pages = []\<rparr>"

text \<open>
  An entry of four full pages with two entries per page table: a root of height 1 over
  two full leaves, which is the tree that inserting the pages 10, 11, 12, 13 at the
  indices 0 to 3 into an empty entry builds.
\<close>

definition full_entry :: tieredPage where
  "full_entry =
     \<lparr>root = PageTable 1 False
               [(0, PageTable 0 True [] [(0, 10), (1, 11)] 50),
                (1, PageTable 0 True [] [(0, 12), (1, 13)] 52)] [] 53,
      tp_pp = 51, tp_usedSize = 256, pages = [10, 11, 12, 13]\<rparr>"

section \<open>Facts about the integer operations\<close>


lemma quot_nonneg: "0 \<le> a \<Longrightarrow> 0 < b \<Longrightarrow> quot a b = a div b"
  by (cases "a = 0") (simp_all add: quot_def)

lemma rem_nonneg: "0 \<le> a \<Longrightarrow> 0 < b \<Longrightarrow> rem a b = a mod b"
  by (cases "a = 0") (simp_all add: rem_def)


section \<open>Seek\<close>

text \<open>
  C6. For every cursor and every whence, \<^verbatim>\<open>Seek\<close> fails exactly when the resolved
  byte offset is negative, and then leaves the cursor as it was. Otherwise the cursor
  becomes \<open>(npages, 0)\<close> when the resolved page index reaches \<open>npages\<close>, and
  (resolved div pageSize, resolved mod pageSize) when it does not; the value returned is
  \<open>cursorPage * pageSize + cursorOff\<close> of the new cursor.
\<close>

theorem Seek_spec:
  assumes "0 < ps"
  shows "let r = resolved ps npages offset w e; res = Seek ps npages offset w e
         in ((\<exists>err. fst res = Inl err) \<longleftrightarrow> r < 0)
          \<and> (r < 0 \<longrightarrow> snd res = e)
          \<and> (0 \<le> r \<longrightarrow> npages \<le> r div ps \<longrightarrow>
               cursorPage (snd res) = npages \<and> cursorOff (snd res) = 0)
          \<and> (0 \<le> r \<longrightarrow> r div ps < npages \<longrightarrow>
               cursorPage (snd res) = r div ps \<and> cursorOff (snd res) = r mod ps)
          \<and> (0 \<le> r \<longrightarrow>
               fst res = Inr (i64 (i64 (cursorPage (snd res) * ps) + cursorOff (snd res))))"
  using assms
  by (cases w)
     (auto simp: Seek_def seek_def resolved_def Let_def quot_nonneg rem_nonneg
           split: sum.splits prod.splits)

theorem Seek_spec_witness:
  "(0::int) < 4096 \<and>
   Seek 4096 2 (-5000) SeekEnd \<lparr>cursorOff = 7, cursorPage = 1\<rparr>
     = (Inr 3192, \<lparr>cursorOff = 3192, cursorPage = 0\<rparr>)"
proof -
  have "(0::int) < 4096" by simp
  from Seek_spec [OF this, of 2 "-5000" SeekEnd "\<lparr>cursorOff = 7, cursorPage = 1\<rparr>"]
  show ?thesis
    by (simp add: Seek_def seek_def resolved_def Let_def i64_def quot_def rem_def)
qed

section \<open>Reading\<close>



lemma page_bytes_length [simp]: "length (page_bytes st pg off n) = n"
  by (simp add: page_bytes_def)



























section \<open>Inserting below a root of height two\<close>

text \<open>
  C1. \<^verbatim>\<open>insertPage\<close> at index 4, with two entries per table, on the full tree of height
  1: the first loop puts a root of height 2 on top, with the old root in slot 0. The
  second loop takes slot \<open>4 div 2^2 = 1\<close> of the new root, creates a table of height
  1 there and goes on with \<^verbatim>\<open>pageIndex = 4 div 2\<close>. In that table it takes slot
  \<open>(4 div 2) div 2 = 1\<close>, where the claim's reduction gives slot 0: the new leaf is put
  into slot 1 of a table whose slot 0 is empty, and writing the table to disk
  dereferences the missing slot 0.
\<close>

theorem insertPage_descent_at_npe_squared:
  "map_option (map_sum id fst) (grow 64 2 example_pm (root full_entry) 4)
     = Some (Inr (PageTable 2 False
                    [(0, PageTable 1 True
                           [(0, PageTable 0 True [] [(0, 10), (1, 11)] 50),
                            (1, PageTable 0 True [] [(0, 12), (1, 13)] 52)] [] 53)]
                    [] 100))
   \<and> map_option (map_sum id fst)
         (descend 64 2 example_pm (PageTable 1 True [] [] 101) (4 div 2) 4 14)
     = Some (Inl PanicNilDeref)"
  by code_simp

section \<open>Slots after recovery\<close>

text \<open>
  C3. A leaf table with the pages 10 and 11 in the slots 0 and 1 is written to disk and
  the tree is recovered from it: \<^verbatim>\<open>recursiveRecovery\<close> stores the first page under the key
  \<open>2^64 - 1\<close> and the second under the key 0, so the slots of the recovered table are
  not the prefix 0, 1. (The pages come back in the order of the disk.)
\<close>

theorem recoverTree_slot_keys:
  "(case writeToDisk 64 example_pm (PageTable 0 False [] [(0, 10), (1, 11)] 50) of
      Inl e \<Rightarrow> Inl e
    | Inr pm \<Rightarrow>
        map_sum id (\<lambda>(tp, pm'). (root tp, map (\<lambda>a. fileOff (objs pm' a)) (pages tp)))
          (recoverTree 64 2 pm (example_entry\<lparr>tp_usedSize := 128\<rparr>) 3200 0))
   = Inr (PageTable 0 False [] [(18446744073709551615, 101), (0, 102)] 100, [640, 704])"
  by code_simp

section \<open>Defragmenting an emptied tree\<close>

text \<open>
  C4. The entry of four pages is truncated to size 0 and defragmented, as \<^verbatim>\<open>Truncate\<close>
  does: \<^verbatim>\<open>defrag\<close> returns without error and the root still has height 1, with no
  child at all.
\<close>

theorem defrag_leaves_empty_root:
  "bindR (recursiveTruncate 64 example_pm full_entry 0)
     (\<lambda>(empty, free1, pm1, tp1).
        Some (map_sum id (\<lambda>(free2, pm2, tp2). (root tp2, tp_usedSize tp2, pages tp2))
                (defrag 64 pm1 tp1)))
   = Some (Inr (PageTable 1 False [] [] 53, 0, []))"
  by code_simp

end
